theory Spec2Isabelle
  imports Complex_Main "HOL-Library.Word"
begin

unbundle bit_operations_syntax

section \<open>Type descriptors (\<open>ts.Type\<close>)\<close>

text \<open>
  The rule \<open>no-unnecessary-condition\<close> consumes types of the TypeScript compiler.
  A type has an identity \<open>id\<close>, by which the checker tells apart two object types of
  the same flags, and carries a bit set \<open>flags\<close> (\<open>ts.TypeFlags\<close>, a 32-bit integer under
  JavaScript's bitwise operators), for intrinsic types an \<open>intrinsicName\<close>, for
  literal types a \<open>value\<close> (\<open>string | number | PseudoBigInt\<close>), and for union and
  intersection types the member list \<open>types\<close>.
\<close>

datatype tsvalue =
    StringValue string
  | NumberValue real
  | PseudoBigInt (negative: bool) (base10Value: string)

datatype tstype =
  TsType (typeId: nat) (flags: "32 word") (intrinsicName: "string option")
         (val: "tsvalue option") (types: "tstype list")

subsection \<open>\<open>ts.TypeFlags\<close>\<close>

definition TypeFlags_Any :: "32 word" where "TypeFlags_Any = 1"
definition TypeFlags_Unknown :: "32 word" where "TypeFlags_Unknown = 2"
definition TypeFlags_String :: "32 word" where "TypeFlags_String = 4"
definition TypeFlags_Number :: "32 word" where "TypeFlags_Number = 8"
definition TypeFlags_Boolean :: "32 word" where "TypeFlags_Boolean = 16"
definition TypeFlags_BigInt :: "32 word" where "TypeFlags_BigInt = 64"
definition TypeFlags_StringLiteral :: "32 word" where "TypeFlags_StringLiteral = 128"
definition TypeFlags_NumberLiteral :: "32 word" where "TypeFlags_NumberLiteral = 256"
definition TypeFlags_BooleanLiteral :: "32 word" where "TypeFlags_BooleanLiteral = 512"
definition TypeFlags_BigIntLiteral :: "32 word" where "TypeFlags_BigIntLiteral = 2048"
definition TypeFlags_Void :: "32 word" where "TypeFlags_Void = 16384"
definition TypeFlags_Undefined :: "32 word" where "TypeFlags_Undefined = 32768"
definition TypeFlags_Null :: "32 word" where "TypeFlags_Null = 65536"
definition TypeFlags_Never :: "32 word" where "TypeFlags_Never = 131072"
definition TypeFlags_TypeParameter :: "32 word" where "TypeFlags_TypeParameter = 262144"
definition TypeFlags_Object :: "32 word" where "TypeFlags_Object = 524288"
definition TypeFlags_Union :: "32 word" where "TypeFlags_Union = 1048576"
definition TypeFlags_Intersection :: "32 word" where "TypeFlags_Intersection = 2097152"
definition TypeFlags_IndexedAccess :: "32 word" where "TypeFlags_IndexedAccess = 8388608"

definition TypeFlags_TypeVariable :: "32 word" where
  "TypeFlags_TypeVariable = TypeFlags_TypeParameter OR TypeFlags_IndexedAccess"

definition TypeFlags_DefinitelyFalsy :: "32 word" where
  "TypeFlags_DefinitelyFalsy =
     TypeFlags_StringLiteral OR TypeFlags_NumberLiteral OR TypeFlags_BigIntLiteral
     OR TypeFlags_BooleanLiteral OR TypeFlags_Void OR TypeFlags_Undefined OR TypeFlags_Null"

definition TypeFlags_PossiblyFalsy :: "32 word" where
  "TypeFlags_PossiblyFalsy =
     TypeFlags_DefinitelyFalsy OR TypeFlags_String OR TypeFlags_Number OR TypeFlags_BigInt
     OR TypeFlags_Boolean"

lemmas TypeFlags_defs =
  TypeFlags_Any_def TypeFlags_Unknown_def TypeFlags_String_def TypeFlags_Number_def
  TypeFlags_Boolean_def TypeFlags_BigInt_def TypeFlags_StringLiteral_def
  TypeFlags_NumberLiteral_def TypeFlags_BooleanLiteral_def TypeFlags_BigIntLiteral_def
  TypeFlags_Void_def TypeFlags_Undefined_def TypeFlags_Null_def TypeFlags_Never_def
  TypeFlags_TypeParameter_def TypeFlags_Object_def TypeFlags_Union_def
  TypeFlags_Intersection_def TypeFlags_IndexedAccess_def TypeFlags_TypeVariable_def
  TypeFlags_DefinitelyFalsy_def TypeFlags_PossiblyFalsy_def

subsection \<open>Methods of \<open>ts.Type\<close>\<close>

definition isUnion :: "tstype \<Rightarrow> bool" where
  "isUnion t \<longleftrightarrow> flags t AND TypeFlags_Union \<noteq> 0"

definition isIntersection :: "tstype \<Rightarrow> bool" where
  "isIntersection t \<longleftrightarrow> flags t AND TypeFlags_Intersection \<noteq> 0"

definition isLiteral_method :: "tstype \<Rightarrow> bool" where
  \<comment> \<open>\<open>type.isLiteral()\<close>: string, number and bigint literal types\<close>
  "isLiteral_method t \<longleftrightarrow>
     flags t AND (TypeFlags_StringLiteral OR TypeFlags_NumberLiteral OR TypeFlags_BigIntLiteral) \<noteq> 0"

definition isNumberLiteral :: "tstype \<Rightarrow> bool" where
  "isNumberLiteral t \<longleftrightarrow> flags t AND TypeFlags_NumberLiteral \<noteq> 0"

definition isStringLiteral :: "tstype \<Rightarrow> bool" where
  "isStringLiteral t \<longleftrightarrow> flags t AND TypeFlags_StringLiteral \<noteq> 0"

text \<open>
  JavaScript's \<open>!!v\<close> on what \<open>type.value\<close> can hold: a missing value and the empty
  string are falsy, a number is falsy when it is zero, and a \<open>PseudoBigInt\<close> is an
  object, hence truthy whatever number it denotes.
\<close>

fun truthy :: "tsvalue option \<Rightarrow> bool" where
  "truthy None = False"
| "truthy (Some (StringValue s)) = (s \<noteq> [])"
| "truthy (Some (NumberValue n)) = (n \<noteq> 0)"
| "truthy (Some (PseudoBigInt neg digits)) = True"

subsection \<open>\<open>ts-api-utils\<close>\<close>

text \<open>
  The helpers of the library \<open>ts-api-utils\<close> that the rule calls, over the plain flags
  of a type: the parts of a union or an intersection, the boolean literal types, told
  apart by their intrinsic name, and \<open>isFalsyType\<close>, which holds of the types with flag
  Undefined, Null or Void, of the literal types whose value is falsy, and of the literal
  type \<open>false\<close>.
\<close>

definition unionTypeParts :: "tstype \<Rightarrow> tstype list" where
  "unionTypeParts t = (if isUnion t then types t else [t])"

definition intersectionTypeParts :: "tstype \<Rightarrow> tstype list" where
  "intersectionTypeParts t = (if isIntersection t then types t else [t])"

definition isBooleanLiteralType :: "tstype \<Rightarrow> bool" where
  "isBooleanLiteralType t \<longleftrightarrow> flags t AND TypeFlags_BooleanLiteral \<noteq> 0"

definition isTrueLiteralType :: "tstype \<Rightarrow> bool" where
  "isTrueLiteralType t \<longleftrightarrow> isBooleanLiteralType t \<and> intrinsicName t = Some ''true''"

definition isFalseLiteralType :: "tstype \<Rightarrow> bool" where
  "isFalseLiteralType t \<longleftrightarrow> isBooleanLiteralType t \<and> intrinsicName t = Some ''false''"

definition isFalsyType :: "tstype \<Rightarrow> bool" where
  "isFalsyType t =
     (if flags t AND (TypeFlags_Undefined OR TypeFlags_Null OR TypeFlags_Void) \<noteq> 0 then True
      else if isLiteral_method t then \<not> truthy (val t)
      else isFalseLiteralType t)"

subsection \<open>Helpers of the rule's \<open>util\<close> module\<close>

text \<open>
  Modelled from the spec: \<open>getTypeFlags\<close> and \<open>isTypeFlagSet\<close> of \<open>../util\<close> are
  not in the source file. \<open>isTypeFlagSet\<close> is the flag membership test of a type
  descriptor against a set of semantic flags; a type carries the flags of the members
  of its union decomposition.
\<close>

definition getTypeFlags :: "tstype \<Rightarrow> 32 word" where
  "getTypeFlags t = foldl (\<lambda>acc m. acc OR flags m) 0 (unionTypeParts t)"

definition isTypeFlagSet :: "tstype \<Rightarrow> 32 word \<Rightarrow> bool" where
  "isTypeFlagSet t flagsToCheck \<longleftrightarrow> getTypeFlags t AND flagsToCheck \<noteq> 0"

text \<open>
  Modelled from the spec: \<open>isTypeAnyType\<close> and \<open>isTypeUnknownType\<close> of \<open>../util\<close>
  are not in the source file: the type includes Any, respectively Unknown.
\<close>

definition isTypeAnyType :: "tstype \<Rightarrow> bool" where
  "isTypeAnyType t \<longleftrightarrow> isTypeFlagSet t TypeFlags_Any"

definition isTypeUnknownType :: "tstype \<Rightarrow> bool" where
  "isTypeUnknownType t \<longleftrightarrow> isTypeFlagSet t TypeFlags_Unknown"

text \<open>
  Modelled from the spec: \<open>isNullableType\<close> of \<open>../util\<close> is not in the source file.
  Nullish is null or undefined; void is tracked separately by its callers.
\<close>

definition isNullableType :: "tstype \<Rightarrow> bool" where
  "isNullableType t \<longleftrightarrow> isTypeFlagSet t (TypeFlags_Null OR TypeFlags_Undefined)"

section \<open>Truthiness and nullishness utilities of the rule\<close>

definition isTruthyLiteral :: "tstype \<Rightarrow> bool" where
  "isTruthyLiteral t \<longleftrightarrow> isTrueLiteralType t \<or> (isLiteral_method t \<and> truthy (val t))"

definition isPossiblyFalsy :: "tstype \<Rightarrow> bool" where
  "isPossiblyFalsy t =
     list_ex (\<lambda>m. isTypeFlagSet m TypeFlags_PossiblyFalsy)
       (filter (\<lambda>m. \<not> isTruthyLiteral m)
         (concat (map intersectionTypeParts (unionTypeParts t))))"

definition isPossiblyTruthy :: "tstype \<Rightarrow> bool" where
  "isPossiblyTruthy t =
     list_ex (\<lambda>intersectionParts. list_all (\<lambda>m. \<not> isFalsyType m) intersectionParts)
       (map intersectionTypeParts (unionTypeParts t))"

definition nullishFlag :: "32 word" where
  "nullishFlag = TypeFlags_Undefined OR TypeFlags_Null"

definition isNullishType :: "tstype \<Rightarrow> bool" where
  "isNullishType t \<longleftrightarrow> isTypeFlagSet t nullishFlag"

definition isPossiblyNullish :: "tstype \<Rightarrow> bool" where
  "isPossiblyNullish t = list_ex isNullishType (unionTypeParts t)"

definition isAlwaysNullish :: "tstype \<Rightarrow> bool" where
  "isAlwaysNullish t = list_all isNullishType (unionTypeParts t)"

definition isLiteral :: "tstype \<Rightarrow> bool" where
  "isLiteral t \<longleftrightarrow>
     isBooleanLiteralType t \<or> flags t = TypeFlags_Undefined \<or> flags t = TypeFlags_Null
     \<or> flags t = TypeFlags_Void \<or> isLiteral_method t"

section \<open>Syntax trees, host services and diagnostics\<close>

text \<open>
  One datatype for the ESTree nodes the rule inspects; \<open>OtherNode\<close> stands for every
  other kind of node, with its kind and children.
\<close>

datatype node =
    Identifier string
  | Literal string
  | UnaryExpression string node
  | LogicalExpression string node node
  | BinaryExpression string node node
  | ConditionalExpression node node node
  | MemberExpression node node bool bool
  | CallExpression node "node list" bool
  | AssignmentExpression string node node
  | ChainExpression node
  | TSNonNullExpression node
  | ArrowFunctionExpression "node list" node
  | FunctionExpression "node list" node
  | BlockStatement "node list"
  | ReturnStatement "node option"
  | ExpressionStatement node
  | IfStatement node node "node option"
  | WhileStatement node node
  | DoWhileStatement node node
  | ForStatement "node option" "node option" "node option" node
  | OtherNode string "node list"

text \<open>
  The fields are, in order: \<open>UnaryExpression operator argument\<close>,
  \<open>LogicalExpression operator left right\<close>, \<open>BinaryExpression operator left right\<close>,
  \<open>ConditionalExpression test consequent alternate\<close>,
  \<open>MemberExpression object property computed optional\<close>,
  \<open>CallExpression callee arguments optional\<close>,
  \<open>AssignmentExpression operator left right\<close>, \<open>ChainExpression expression\<close>,
  \<open>TSNonNullExpression expression\<close>, \<open>ArrowFunctionExpression params body\<close>,
  \<open>FunctionExpression params body\<close>, \<open>BlockStatement body\<close>,
  \<open>ReturnStatement argument\<close>, \<open>ExpressionStatement expression\<close>,
  \<open>IfStatement test consequent alternate\<close>, \<open>WhileStatement test body\<close>,
  \<open>DoWhileStatement body test\<close>, \<open>ForStatement init test update body\<close>.
\<close>

datatype MessageId =
    alwaysFalsy
  | alwaysFalsyFunc
  | alwaysNullish
  | alwaysTruthy
  | alwaysTruthyFunc
  | literalBooleanExpression
  | never
  | neverNullish
  | neverOptionalChain
  | noOverlapBooleanExpression
  | noStrictNullCheck

datatype token = Token (tokenType: string) (tokenValue: string) (tokenLoc: nat)

text \<open>
  A diagnostic handed to \<open>context.report\<close>: the node, the message and, for the optional
  chain, the fix \<open>fixer.replaceText(token, text)\<close>.
\<close>

datatype report =
  Report (reportNode: node) (reportMessageId: MessageId) (reportFix: "(token \<times> string) option")

datatype error = MissingToken string string

datatype symbol = Symbol (symbolFlags: "32 word")

definition SymbolFlags_Optional :: "32 word" where
  "SymbolFlags_Optional = 16777216"

definition isSymbolFlagSet :: "symbol \<Rightarrow> 32 word \<Rightarrow> bool" where
  "isSymbolFlagSet s flag \<longleftrightarrow> symbolFlags s AND flag \<noteq> 0"

datatype indexInfo = IndexInfo (keyType: tstype)

datatype IndexKind = IndexKind_String | IndexKind_Number

datatype signature = Signature (getReturnType: tstype)

text \<open>
  What the rule closes over in \<open>create\<close>: the two options, the compiler option
  \<open>strictNullChecks\<close>, and the capabilities of the parser services, the type checker
  and the source code that the rule queries but does not implement. Each query is a
  function of the record; \<open>getConstrainedTypeAtLocation\<close>, \<open>getTypeOfPropertyOfName\<close>
  and \<open>getTypeName\<close> are helpers of \<open>../util\<close> over the checker and are taken as
  queries likewise, as is \<open>value.toString()\<close> of a literal type's value.
\<close>

record rule_context =
  allowConstantLoopConditions :: bool
  isStrictNullChecks :: bool
  getTypeAtLocation :: "node \<Rightarrow> tstype"
  getConstrainedTypeAtLocation :: "node \<Rightarrow> tstype"
  isArrayType :: "tstype \<Rightarrow> bool"
  isTupleType :: "tstype \<Rightarrow> bool"
  getProperty :: "tstype \<Rightarrow> string \<Rightarrow> symbol option"
  getTypeOfPropertyOfName :: "tstype \<Rightarrow> string \<Rightarrow> tstype option"
  getTypeName :: "tstype \<Rightarrow> string"
  getIndexInfosOfType :: "tstype \<Rightarrow> indexInfo list"
  getIndexInfoOfType :: "tstype \<Rightarrow> IndexKind \<Rightarrow> indexInfo option"
  getCallSignatures :: "tstype \<Rightarrow> signature list"
  getCallSignaturesOfType :: "tstype \<Rightarrow> signature list"
  valueToString :: "tsvalue option \<Rightarrow> string"
  getTokenAfter :: "node \<Rightarrow> (token \<Rightarrow> bool) \<Rightarrow> token option"

section \<open>The rule\<close>

definition nodeIsArrayType :: "rule_context \<Rightarrow> node \<Rightarrow> bool" where
  "nodeIsArrayType ctx n = isArrayType ctx (getConstrainedTypeAtLocation ctx n)"

definition nodeIsTupleType :: "rule_context \<Rightarrow> node \<Rightarrow> bool" where
  "nodeIsTupleType ctx n = isTupleType ctx (getConstrainedTypeAtLocation ctx n)"

fun isLiteralNode :: "node \<Rightarrow> bool" where
  "isLiteralNode (Literal raw) = True"
| "isLiteralNode _ = False"

fun isArrayIndexExpression :: "rule_context \<Rightarrow> node \<Rightarrow> bool" where
  "isArrayIndexExpression ctx (MemberExpression object property computed optional) =
     (computed \<and>
       (nodeIsArrayType ctx object \<or> (nodeIsTupleType ctx object \<and> \<not> isLiteralNode property)))"
| "isArrayIndexExpression ctx _ = False"

lemma types_size [termination_simp]:
  "t \<in> set (types T) \<Longrightarrow> size t < size T"
  by (cases T) (auto simp: less_Suc_eq_le size_list_estimation')

function isNullablePropertyType :: "rule_context \<Rightarrow> tstype \<Rightarrow> tstype \<Rightarrow> bool" where
  "isNullablePropertyType ctx objType propertyType =
     (if isUnion propertyType
      then list_ex (\<lambda>type. isNullablePropertyType ctx objType type) (types propertyType)
      else
        (case (if isNumberLiteral propertyType \<or> isStringLiteral propertyType
               then getTypeOfPropertyOfName ctx objType (valueToString ctx (val propertyType))
               else None) of
           Some propType \<Rightarrow> isNullableType propType
         | None \<Rightarrow>
             list_ex
               (\<lambda>info. getTypeName ctx (keyType info) = getTypeName ctx propertyType)
               (getIndexInfosOfType ctx objType)))"
  by pat_completeness auto
termination
  by (relation "measure (\<lambda>(ctx, objType, propertyType). size propertyType)")
     (auto simp: types_size)

declare isNullablePropertyType.simps [simp del]

fun isNullableMemberExpression :: "rule_context \<Rightarrow> node \<Rightarrow> bool" where
  "isNullableMemberExpression ctx (MemberExpression object property computed optional) =
     (let objectType = getTypeAtLocation ctx object in
      if computed
      then isNullablePropertyType ctx objectType (getTypeAtLocation ctx property)
      else
        (case property of
           Identifier name \<Rightarrow>
             (case getProperty ctx objectType name of
                Some propertyType \<Rightarrow> isSymbolFlagSet propertyType SymbolFlags_Optional
              | None \<Rightarrow> False)
         | _ \<Rightarrow> False))"
| "isNullableMemberExpression ctx _ = False"

text \<open>
  The two early exits of \<open>checkNode\<close> look at the shape of the node: a unary
  expression with operator \<open>!\<close> hands over its argument, a logical expression whose
  operator is not \<open>??\<close> its right operand.
\<close>

fun unaryNotArgument :: "node \<Rightarrow> node option" where
  "unaryNotArgument (UnaryExpression operator argument) =
     (if operator = ''!'' then Some argument else None)"
| "unaryNotArgument _ = None"

fun logicalRight :: "node \<Rightarrow> node option" where
  "logicalRight (LogicalExpression operator left right) =
     (if operator \<noteq> ''??'' then Some right else None)"
| "logicalRight _ = None"

lemma unaryNotArgument_size [termination_simp]:
  "unaryNotArgument n = Some a \<Longrightarrow> size a < size n"
  by (cases n) (auto split: if_splits)

lemma logicalRight_size [termination_simp]:
  "logicalRight n = Some r \<Longrightarrow> size r < size n"
  by (cases n) (auto split: if_splits)

function checkNode :: "rule_context \<Rightarrow> node \<Rightarrow> bool \<Rightarrow> report list" where
  "checkNode ctx node isUnaryNotArgument =
     (case unaryNotArgument node of
        Some argument \<Rightarrow> checkNode ctx argument True
      | None \<Rightarrow>
          if isArrayIndexExpression ctx node then []
          else
            (case logicalRight node of
               Some right \<Rightarrow> checkNode ctx right False
             | None \<Rightarrow>
                 (let type = getConstrainedTypeAtLocation ctx node in
                  if list_ex
                       (\<lambda>part. isTypeAnyType part \<or> isTypeUnknownType part
                          \<or> isTypeFlagSet part TypeFlags_TypeVariable)
                       (unionTypeParts type)
                  then []
                  else
                    (case (if isTypeFlagSet type TypeFlags_Never then Some never
                           else if \<not> isPossiblyTruthy type
                           then Some (if \<not> isUnaryNotArgument then alwaysFalsy else alwaysTruthy)
                           else if \<not> isPossiblyFalsy type
                           then Some (if \<not> isUnaryNotArgument then alwaysTruthy else alwaysFalsy)
                           else None) of
                       Some messageId \<Rightarrow> [Report node messageId None]
                     | None \<Rightarrow> []))))"
  by pat_completeness auto
termination
  by (relation "measure (\<lambda>(ctx, n, neg). size n)")
     (auto dest: unaryNotArgument_size logicalRight_size)

declare checkNode.simps [simp del]

text \<open>
  In an optional chain a step is a call or a member expression; \<open>calleeOrObject\<close> is
  the source's \<open>node.type === CallExpression ? node.callee : node.object\<close> and
  \<open>isOptional\<close> its \<open>node.optional\<close>. The parameter type of the functions below admits
  no other node.
\<close>

fun calleeOrObject :: "node \<Rightarrow> node option" where
  "calleeOrObject (CallExpression callee arguments optional) = Some callee"
| "calleeOrObject (MemberExpression object property computed optional) = Some object"
| "calleeOrObject _ = None"

fun isOptional :: "node \<Rightarrow> bool" where
  "isOptional (CallExpression callee arguments optional) = optional"
| "isOptional (MemberExpression object property computed optional) = optional"
| "isOptional _ = False"

fun isMemberExpression :: "node \<Rightarrow> bool" where
  "isMemberExpression (MemberExpression object property computed optional) = True"
| "isMemberExpression _ = False"

fun isCallExpression :: "node \<Rightarrow> bool" where
  "isCallExpression (CallExpression callee arguments optional) = True"
| "isCallExpression _ = False"

lemma calleeOrObject_size [termination_simp]:
  "calleeOrObject n = Some l \<Longrightarrow> size l < size n"
  by (cases n) auto

function optionChainContainsOptionArrayIndex :: "rule_context \<Rightarrow> node \<Rightarrow> bool" where
  "optionChainContainsOptionArrayIndex ctx node =
     (case calleeOrObject node of
        None \<Rightarrow> False
      | Some lhsNode \<Rightarrow>
          if isOptional node \<and> isArrayIndexExpression ctx lhsNode then True
          else if isMemberExpression lhsNode \<or> isCallExpression lhsNode
          then optionChainContainsOptionArrayIndex ctx lhsNode
          else False)"
  by pat_completeness auto
termination
  by (relation "measure (\<lambda>(ctx, n). size n)") (auto dest: calleeOrObject_size)

declare optionChainContainsOptionArrayIndex.simps [simp del]

fun isChainExpressionOfOptionArrayIndex :: "rule_context \<Rightarrow> node \<Rightarrow> bool" where
  "isChainExpressionOfOptionArrayIndex ctx (ChainExpression expression) =
     ((case expression of TSNonNullExpression inner \<Rightarrow> False | _ \<Rightarrow> True)
      \<and> optionChainContainsOptionArrayIndex ctx expression)"
| "isChainExpressionOfOptionArrayIndex ctx _ = False"

definition checkNodeForNullish :: "rule_context \<Rightarrow> node \<Rightarrow> report list" where
  "checkNodeForNullish ctx node =
     (let type = getConstrainedTypeAtLocation ctx node in
      if isTypeFlagSet type
           (TypeFlags_Any OR TypeFlags_Unknown OR TypeFlags_TypeParameter OR TypeFlags_TypeVariable)
      then []
      else
        (case (if isTypeFlagSet type TypeFlags_Never then Some never
               else if \<not> isPossiblyNullish type
                       \<and> \<not> (isMemberExpression node \<and> isNullableMemberExpression ctx node)
               then (if \<not> isArrayIndexExpression ctx node
                        \<and> \<not> isChainExpressionOfOptionArrayIndex ctx node
                     then Some neverNullish else None)
               else if isAlwaysNullish type then Some alwaysNullish
               else None) of
           Some messageId \<Rightarrow> [Report node messageId None]
         | None \<Rightarrow> []))"

definition BOOL_OPERATORS :: "string list" where
  "BOOL_OPERATORS = [''<'', ''>'', ''<='', ''>='', ''=='', ''==='', ''!='', ''!=='']"

definition isComparable :: "string \<Rightarrow> tstype \<Rightarrow> 32 word \<Rightarrow> bool" where
  \<comment> \<open>the local function of the binary check; \<open>operator\<close> is \<open>node.operator\<close>\<close>
  "isComparable operator type flag =
     (let flag1 = flag OR (TypeFlags_Any OR TypeFlags_Unknown OR TypeFlags_TypeParameter
                            OR TypeFlags_TypeVariable);
          flag2 = (if operator = ''=='' \<or> operator = ''!=''
                   then flag1 OR (TypeFlags_Null OR TypeFlags_Undefined OR TypeFlags_Void)
                   else flag1)
      in isTypeFlagSet type flag2)"

fun checkIfBinaryExpressionIsNecessaryConditional :: "rule_context \<Rightarrow> node \<Rightarrow> report list" where
  "checkIfBinaryExpressionIsNecessaryConditional ctx (BinaryExpression operator left right) =
     (if operator \<notin> set BOOL_OPERATORS then []
      else
        (let leftType = getConstrainedTypeAtLocation ctx left;
             rightType = getConstrainedTypeAtLocation ctx right
         in if isLiteral leftType \<and> isLiteral rightType
            then [Report (BinaryExpression operator left right) literalBooleanExpression None]
            else if isStrictNullChecks ctx
                    \<and> ((flags leftType = TypeFlags_Undefined
                           \<and> \<not> isComparable operator rightType (TypeFlags_Undefined OR TypeFlags_Void))
                       \<or> (flags rightType = TypeFlags_Undefined
                           \<and> \<not> isComparable operator leftType (TypeFlags_Undefined OR TypeFlags_Void))
                       \<or> (flags leftType = TypeFlags_Null
                           \<and> \<not> isComparable operator rightType TypeFlags_Null)
                       \<or> (flags rightType = TypeFlags_Null
                           \<and> \<not> isComparable operator leftType TypeFlags_Null))
            then [Report (BinaryExpression operator left right) noOverlapBooleanExpression None]
            else []))"
| "checkIfBinaryExpressionIsNecessaryConditional ctx _ = []"

fun checkLogicalExpressionForUnnecessaryConditionals :: "rule_context \<Rightarrow> node \<Rightarrow> report list" where
  "checkLogicalExpressionForUnnecessaryConditionals ctx (LogicalExpression operator left right) =
     (if operator = ''??'' then checkNodeForNullish ctx left
      else checkNode ctx left False)"
| "checkLogicalExpressionForUnnecessaryConditionals ctx _ = []"



definition ARRAY_PREDICATE_FUNCTIONS :: "string list" where
  "ARRAY_PREDICATE_FUNCTIONS = [''filter'', ''find'', ''some'', ''every'']"

fun isArrayPredicateFunction :: "rule_context \<Rightarrow> node \<Rightarrow> bool" where
  "isArrayPredicateFunction ctx (CallExpression callee arguments optional) =
     (case callee of
        MemberExpression object property computed opt \<Rightarrow>
          (case property of
             Identifier name \<Rightarrow>
               name \<in> set ARRAY_PREDICATE_FUNCTIONS
               \<and> (nodeIsArrayType ctx object \<or> nodeIsTupleType ctx object)
           | _ \<Rightarrow> False)
      | _ \<Rightarrow> False)"
| "isArrayPredicateFunction ctx _ = False"

text \<open>
  The two special cases of an inline callback, whose returned node is checked directly:
  \<open>() => something\<close> and \<open>() => { return something; }\<close>.
\<close>

fun returnedByBody :: "node \<Rightarrow> node option" where
  "returnedByBody (BlockStatement callbackBody) =
     (case callbackBody of
        [ReturnStatement (Some argument)] \<Rightarrow> Some argument
      | _ \<Rightarrow> None)"
| "returnedByBody body = Some body"

fun inlineCallbackResult :: "node \<Rightarrow> node option" where
  "inlineCallbackResult (ArrowFunctionExpression params body) = returnedByBody body"
| "inlineCallbackResult (FunctionExpression params body) = returnedByBody body"
| "inlineCallbackResult _ = None"

fun checkCallExpression :: "rule_context \<Rightarrow> node \<Rightarrow> report list" where
  "checkCallExpression ctx (CallExpression callee arguments optional) =
     (if isArrayPredicateFunction ctx (CallExpression callee arguments optional)
         \<and> arguments \<noteq> []
      then
        (let callback = hd arguments in
         case inlineCallbackResult callback of
           Some returned \<Rightarrow> checkNode ctx returned False
         | None \<Rightarrow>
             (let returnTypes =
                    map getReturnType
                      (getCallSignaturesOfType ctx (getConstrainedTypeAtLocation ctx callback))
              in if returnTypes = [] then []
                 else if list_ex (\<lambda>t. isTypeAnyType t \<or> isTypeUnknownType t) returnTypes then []
                 else if \<not> list_ex isPossiblyFalsy returnTypes
                 then [Report callback alwaysTruthyFunc None]
                 else if \<not> list_ex isPossiblyTruthy returnTypes
                 then [Report callback alwaysFalsyFunc None]
                 else []))
      else [])"
| "checkCallExpression ctx _ = []"

text \<open>
  Modelled from the spec: \<open>isIdentifier\<close> of \<open>../util\<close> is not in the source file; it
  tells an \<open>Identifier\<close> node from the other nodes.
\<close>

fun isIdentifier :: "node \<Rightarrow> bool" where
  "isIdentifier (Identifier name) = True"
| "isIdentifier _ = False"

fun identifierName :: "node \<Rightarrow> string" where
  "identifierName (Identifier name) = name"
| "identifierName _ = []"

fun isMemberExpressionNullableOriginFromObject :: "rule_context \<Rightarrow> node \<Rightarrow> bool" where
  "isMemberExpressionNullableOriginFromObject ctx
     (MemberExpression object property computed optional) =
     (let prevType = getConstrainedTypeAtLocation ctx object in
      if isUnion prevType \<and> isIdentifier property
      then
        (let isOwnNullable =
               list_ex
                 (\<lambda>type.
                    if computed
                    then isNullablePropertyType ctx type
                           (getConstrainedTypeAtLocation ctx property)
                    else
                      (case getTypeOfPropertyOfName ctx type (identifierName property) of
                         Some propType \<Rightarrow> isNullableType propType
                       | None \<Rightarrow> getIndexInfoOfType ctx type IndexKind_String \<noteq> None))
                 (types prevType)
         in \<not> isOwnNullable \<and> isNullableType prevType)
      else False)"
| "isMemberExpressionNullableOriginFromObject ctx _ = False"

fun isCallExpressionNullableOriginFromCallee :: "rule_context \<Rightarrow> node \<Rightarrow> bool" where
  "isCallExpressionNullableOriginFromCallee ctx (CallExpression callee arguments optional) =
     (let prevType = getConstrainedTypeAtLocation ctx callee in
      if isUnion prevType
      then
        (let isOwnNullable =
               list_ex
                 (\<lambda>type. list_ex (\<lambda>sig. isNullableType (getReturnType sig))
                            (getCallSignatures ctx type))
                 (types prevType)
         in \<not> isOwnNullable \<and> isNullableType prevType)
      else False)"
| "isCallExpressionNullableOriginFromCallee ctx _ = False"

definition isOptionableExpression :: "rule_context \<Rightarrow> node \<Rightarrow> bool" where
  "isOptionableExpression ctx node =
     (let type = getConstrainedTypeAtLocation ctx node;
          isOwnNullable =
            (if isMemberExpression node
             then \<not> isMemberExpressionNullableOriginFromObject ctx node
             else if isCallExpression node
             then \<not> isCallExpressionNullableOriginFromCallee ctx node
             else True);
          possiblyVoid = isTypeFlagSet type TypeFlags_Void
      in isTypeFlagSet type (TypeFlags_Any OR TypeFlags_Unknown)
         \<or> (isOwnNullable \<and> (isNullableType type \<or> possiblyVoid)))"

fun nodeType :: "node \<Rightarrow> string" where
  "nodeType (Identifier name) = ''Identifier''"
| "nodeType (Literal raw) = ''Literal''"
| "nodeType (UnaryExpression operator argument) = ''UnaryExpression''"
| "nodeType (LogicalExpression operator left right) = ''LogicalExpression''"
| "nodeType (BinaryExpression operator left right) = ''BinaryExpression''"
| "nodeType (ConditionalExpression test consequent alternate) = ''ConditionalExpression''"
| "nodeType (MemberExpression object property computed optional) = ''MemberExpression''"
| "nodeType (CallExpression callee arguments optional) = ''CallExpression''"
| "nodeType (AssignmentExpression operator left right) = ''AssignmentExpression''"
| "nodeType (ChainExpression expression) = ''ChainExpression''"
| "nodeType (TSNonNullExpression expression) = ''TSNonNullExpression''"
| "nodeType (ArrowFunctionExpression params body) = ''ArrowFunctionExpression''"
| "nodeType (FunctionExpression params body) = ''FunctionExpression''"
| "nodeType (BlockStatement body) = ''BlockStatement''"
| "nodeType (ReturnStatement argument) = ''ReturnStatement''"
| "nodeType (ExpressionStatement expression) = ''ExpressionStatement''"
| "nodeType (IfStatement test consequent alternate) = ''IfStatement''"
| "nodeType (WhileStatement test body) = ''WhileStatement''"
| "nodeType (DoWhileStatement body test) = ''DoWhileStatement''"
| "nodeType (ForStatement init test update body) = ''ForStatement''"
| "nodeType (OtherNode kind children) = kind"

text \<open>
  \<open>checkOptionalChain\<close> either fails, when \<open>nullThrows\<close> finds no \<open>?.\<close> token after
  \<open>beforeOperator\<close>, or returns the diagnostics it reported.
\<close>

definition checkOptionalChain ::
  "rule_context \<Rightarrow> node \<Rightarrow> node \<Rightarrow> string \<Rightarrow> error + report list" where
  "checkOptionalChain ctx node beforeOperator fix_text =
     (if \<not> isOptional node then Inr []
      else if optionChainContainsOptionArrayIndex ctx node then Inr []
      else
        (case calleeOrObject node of
           None \<Rightarrow> Inr []
         | Some nodeToCheck \<Rightarrow>
             if isOptionableExpression ctx nodeToCheck then Inr []
             else
               (case getTokenAfter ctx beforeOperator
                       (\<lambda>token. tokenType token = ''Punctuator'' \<and> tokenValue token = ''?.'') of
                  None \<Rightarrow> Inl (MissingToken ''operator'' (nodeType node))
                | Some questionDotOperator \<Rightarrow>
                    Inr [Report node neverOptionalChain
                           (Some (questionDotOperator, fix_text))])))"

fun checkOptionalMemberExpression :: "rule_context \<Rightarrow> node \<Rightarrow> error + report list" where
  "checkOptionalMemberExpression ctx (MemberExpression object property computed optional) =
     checkOptionalChain ctx (MemberExpression object property computed optional) object
       (if computed then [] else ''.'')"
| "checkOptionalMemberExpression ctx _ = Inr []"


fun checkAssignmentExpression :: "rule_context \<Rightarrow> node \<Rightarrow> report list" where
  "checkAssignmentExpression ctx (AssignmentExpression operator left right) =
     (if operator \<in> set [''||='', ''&&=''] then checkNode ctx left False
      else if operator = ''??='' then checkNodeForNullish ctx left
      else [])"
| "checkAssignmentExpression ctx _ = []"

section \<open>Example inputs\<close>

text \<open>Types as the compiler builds them, for the concrete inputs used below.\<close>

definition anyType :: tstype where
  "anyType = TsType 1 TypeFlags_Any (Some ''any'') None []"
definition neverType :: tstype where
  "neverType = TsType 2 TypeFlags_Never (Some ''never'') None []"
definition nullType :: tstype where
  "nullType = TsType 3 TypeFlags_Null (Some ''null'') None []"
definition undefinedType :: tstype where
  "undefinedType = TsType 4 TypeFlags_Undefined (Some ''undefined'') None []"
definition stringType :: tstype where
  "stringType = TsType 5 TypeFlags_String (Some ''string'') None []"
definition trueType :: tstype where
  "trueType = TsType 6 TypeFlags_BooleanLiteral (Some ''true'') None []"
definition falseType :: tstype where
  "falseType = TsType 7 TypeFlags_BooleanLiteral (Some ''false'') None []"
definition booleanType :: tstype where
  "booleanType =
     TsType 8 (TypeFlags_Boolean OR TypeFlags_Union) (Some ''boolean'') None
       [falseType, trueType]"
definition typeParameterT :: tstype where
  "typeParameterT = TsType 9 TypeFlags_TypeParameter None None []"
definition objectType :: "tstype" where
  "objectType = TsType 10 TypeFlags_Object None None []"
definition unionOf :: "tstype list \<Rightarrow> tstype" where
  "unionOf ts = TsType 0 TypeFlags_Union None None ts"
definition bigintZeroType :: tstype where
  "bigintZeroType =
     TsType 11 TypeFlags_BigIntLiteral None (Some (PseudoBigInt False ''0'')) []"

lemmas example_types =
  anyType_def neverType_def nullType_def undefinedType_def stringType_def trueType_def
  falseType_def booleanType_def typeParameterT_def objectType_def unionOf_def bigintZeroType_def

definition default_context :: rule_context where
  "default_context =
     \<lparr> allowConstantLoopConditions = False,
       isStrictNullChecks = True,
       getTypeAtLocation = (\<lambda>n. anyType),
       getConstrainedTypeAtLocation = (\<lambda>n. anyType),
       isArrayType = (\<lambda>t. False),
       isTupleType = (\<lambda>t. False),
       getProperty = (\<lambda>t name. None),
       getTypeOfPropertyOfName = (\<lambda>t name. None),
       getTypeName = (\<lambda>t. []),
       getIndexInfosOfType = (\<lambda>t. []),
       getIndexInfoOfType = (\<lambda>t kind. None),
       getCallSignatures = (\<lambda>t. []),
       getCallSignaturesOfType = (\<lambda>t. []),
       valueToString = (\<lambda>v. []),
       getTokenAfter = (\<lambda>n f. None) \<rparr>"

definition typed :: "(node \<Rightarrow> tstype) \<Rightarrow> rule_context" where
  "typed typing =
     default_context \<lparr> getTypeAtLocation := typing, getConstrainedTypeAtLocation := typing \<rparr>"


section \<open>The claims' vocabulary\<close>

text \<open>
  A type involves Any, Unknown or a type variable when a member of its union
  decomposition carries one of these flags. The compiler keeps unions flat, so a
  member is not itself a union.
\<close>

definition involvesAnyUnknownOrTypeVariable :: "tstype \<Rightarrow> bool" where
  "involvesAnyUnknownOrTypeVariable t =
     list_ex
       (\<lambda>part. \<not> isUnion part
          \<and> flags part AND (TypeFlags_Any OR TypeFlags_Unknown OR TypeFlags_TypeParameter
                             OR TypeFlags_TypeVariable) \<noteq> 0)
       (unionTypeParts t)"

definition c1_node :: node where
  "c1_node = LogicalExpression ''&&'' (Identifier ''a'') (Literal ''true'')"

definition c1_context :: rule_context where
  "c1_context = typed (\<lambda>n. if n = Literal ''true'' then trueType else anyType)"

definition c1_witness_context :: rule_context where
  "c1_witness_context = typed (\<lambda>n. unionOf [typeParameterT, trueType])"

definition c2_node :: node where
  "c2_node = MemberExpression (Identifier ''arr'') (Literal ''0'') True False"

definition c2_context :: rule_context where
  "c2_context = typed (\<lambda>n. neverType) \<lparr> isArrayType := (\<lambda>t. True) \<rparr>"

definition c3_context :: rule_context where
  "c3_context = typed (\<lambda>n. if n = Identifier ''x'' then trueType else booleanType)"


text \<open>
  The reference definition of \<open>isPossiblyFalsy\<close>, in the words of the specification: a
  truthy literal is the literal \<open>true\<close> or a literal whose runtime value is truthy, and a
  type is possibly falsy when, among the intersection members of its union members
  that are not truthy literals, one carries the flag \<open>PossiblyFalsy\<close>. The runtime value
  of a bigint literal is the number its digits denote, falsy when it is \<open>0n\<close>.
\<close>

fun runtimeTruthy :: "tsvalue option \<Rightarrow> bool" where
  "runtimeTruthy None = False"
| "runtimeTruthy (Some (StringValue s)) = (s \<noteq> [])"
| "runtimeTruthy (Some (NumberValue n)) = (n \<noteq> 0)"
| "runtimeTruthy (Some (PseudoBigInt neg digits)) = (digits \<noteq> ''0'')"

definition isTruthyLiteral_spec :: "tstype \<Rightarrow> bool" where
  "isTruthyLiteral_spec t \<longleftrightarrow>
     isTrueLiteralType t \<or> (isLiteral_method t \<and> runtimeTruthy (val t))"

definition isPossiblyFalsy_spec :: "tstype \<Rightarrow> bool" where
  "isPossiblyFalsy_spec t =
     list_ex (\<lambda>m. isTypeFlagSet m TypeFlags_PossiblyFalsy)
       (filter (\<lambda>m. \<not> isTruthyLiteral_spec m)
         (concat (map intersectionTypeParts (unionTypeParts t))))"

text \<open>
  The condition of the no-overlap verdict, in the words of the specification: strict
  null checks are on, one operand's type is exactly Undefined (respectively exactly
  Null), and the other operand's type carries none of Undefined and Void
  (respectively Null), none of Any, Unknown, TypeParameter and TypeVariable, and, under
  the loose operators \<open>==\<close> and \<open>!=\<close>, none of Null, Undefined and Void.
\<close>

definition carriesAnyOf :: "tstype \<Rightarrow> 32 word list \<Rightarrow> bool" where
  "carriesAnyOf t fs = list_ex (\<lambda>f. isTypeFlagSet t f) fs"

definition cannotBe :: "string \<Rightarrow> tstype \<Rightarrow> 32 word list \<Rightarrow> bool" where
  "cannotBe operator other fs \<longleftrightarrow>
     \<not> carriesAnyOf other fs
     \<and> \<not> carriesAnyOf other
           [TypeFlags_Any, TypeFlags_Unknown, TypeFlags_TypeParameter, TypeFlags_TypeVariable]
     \<and> \<not> ((operator = ''=='' \<or> operator = ''!='')
           \<and> carriesAnyOf other [TypeFlags_Null, TypeFlags_Undefined, TypeFlags_Void])"

definition noTypeOverlap_spec :: "bool \<Rightarrow> string \<Rightarrow> tstype \<Rightarrow> tstype \<Rightarrow> bool" where
  "noTypeOverlap_spec strictNullChecks operator leftType rightType \<longleftrightarrow>
     strictNullChecks
     \<and> list_ex
         (\<lambda>(one, other).
            (flags one = TypeFlags_Undefined
               \<and> cannotBe operator other [TypeFlags_Undefined, TypeFlags_Void])
            \<or> (flags one = TypeFlags_Null \<and> cannotBe operator other [TypeFlags_Null]))
         [(leftType, rightType), (rightType, leftType)]"

definition c7_context :: rule_context where
  "c7_context =
     typed (\<lambda>n. if n = Identifier ''undefined'' then undefinedType else stringType)"











text \<open>
  The first condition of claim C4, in the words of the specification: the base's type
  is a union, no member of it, taken alone, yields a nullable type for the property,
  and the union as a whole is nullable.
\<close>

definition nullableOnUnionAsAWhole :: "rule_context \<Rightarrow> tstype \<Rightarrow> string \<Rightarrow> bool" where
  "nullableOnUnionAsAWhole ctx baseType name \<longleftrightarrow>
     isUnion baseType
     \<and> \<not> list_ex
           (\<lambda>member.
              case getTypeOfPropertyOfName ctx member name of
                Some propType \<Rightarrow> isNullableType propType
              | None \<Rightarrow> getIndexInfoOfType ctx member IndexKind_String \<noteq> None)
           (types baseType)
     \<and> isNullableType baseType"

definition questionDot :: token where
  "questionDot = Token ''Punctuator'' ''?.'' 1"

definition c4_outer :: tstype where
  "c4_outer = TsType 21 TypeFlags_Object None None []"

definition c4_inner :: tstype where
  "c4_inner = TsType 22 TypeFlags_Object None None []"

definition c4_base :: node where
  "c4_base = MemberExpression (Identifier ''x'') (Identifier ''y'') False True"

definition c4_context :: rule_context where
  "c4_context =
     typed (\<lambda>n. if n = Identifier ''x'' then unionOf [c4_outer, nullType]
                else if n = c4_base then unionOf [c4_inner, undefinedType]
                else if n = Identifier ''base'' then unionOf [c4_inner, nullType]
                else stringType)
       \<lparr> getTypeOfPropertyOfName :=
           (\<lambda>t name. if t = c4_outer \<and> name = ''y'' then Some c4_inner
                       else if t = c4_inner \<and> name = ''a'' then Some stringType
                       else None),
         getTokenAfter := (\<lambda>n f. if f questionDot then Some questionDot else None) \<rparr>"

text \<open>
  The tree walk. The host linter, which is not part of the source file, visits every
  node of the tree once and runs, at each node, the handlers that the rule registers
  for its kind in the table of listeners it returns. To say which nodes are checked,
  and how often, the walk is followed by positions: a position is the path from the
  root to a node, as the indices taken among the \<open>children\<close> of each node on the way.
\<close>

fun optionalChild :: "node option \<Rightarrow> node list" where
  "optionalChild None = []"
| "optionalChild (Some child) = [child]"

fun children :: "node \<Rightarrow> node list" where
  "children (Identifier name) = []"
| "children (Literal raw) = []"
| "children (UnaryExpression operator argument) = [argument]"
| "children (LogicalExpression operator left right) = [left, right]"
| "children (BinaryExpression operator left right) = [left, right]"
| "children (ConditionalExpression test consequent alternate) = [test, consequent, alternate]"
| "children (MemberExpression object property computed optional) = [object, property]"
| "children (CallExpression callee arguments optional) = callee # arguments"
| "children (AssignmentExpression operator left right) = [left, right]"
| "children (ChainExpression expression) = [expression]"
| "children (TSNonNullExpression expression) = [expression]"
| "children (ArrowFunctionExpression params body) = params @ [body]"
| "children (FunctionExpression params body) = params @ [body]"
| "children (BlockStatement body) = body"
| "children (ReturnStatement argument) = optionalChild argument"
| "children (ExpressionStatement expression) = [expression]"
| "children (IfStatement test consequent alternate) =
     test # consequent # optionalChild alternate"
| "children (WhileStatement test body) = [test, body]"
| "children (DoWhileStatement body test) = [body, test]"
| "children (ForStatement init test update body) =
     optionalChild init @ optionalChild test @ optionalChild update @ [body]"
| "children (OtherNode kind nodes) = nodes"

fun nodeAt :: "node \<Rightarrow> nat list \<Rightarrow> node option" where
  "nodeAt node [] = Some node"
| "nodeAt node (i # position) =
     (if i < length (children node) then nodeAt (children node ! i) position else None)"

text \<open>
  The positions, below \<open>node\<close>, of the nodes on which \<open>checkNode\<close> is entered when it is
  called on \<open>node\<close>: the node itself, then the argument of a negation or, past the
  array index guard, the right operand of \<open>&&\<close> or \<open>||\<close>, and so on.
\<close>

function checkNodeVisits :: "rule_context \<Rightarrow> node \<Rightarrow> nat list list" where
  "checkNodeVisits ctx node =
     [] #
     (case unaryNotArgument node of
        Some argument \<Rightarrow> map ((#) 0) (checkNodeVisits ctx argument)
      | None \<Rightarrow>
          if isArrayIndexExpression ctx node then []
          else
            (case logicalRight node of
               Some right \<Rightarrow> map ((#) 1) (checkNodeVisits ctx right)
             | None \<Rightarrow> []))"
  by pat_completeness auto
termination
  by (relation "measure (\<lambda>(ctx, n). size n)")
     (auto dest: unaryNotArgument_size logicalRight_size)

declare checkNodeVisits.simps [simp del]

text \<open>
  Where the node returned by an inline callback sits below the callback: the body of
  the function, or the argument of the single return statement of its block.
\<close>

fun returnedByBodyPath :: "node \<Rightarrow> nat list" where
  "returnedByBodyPath (BlockStatement callbackBody) = [0, 0]"
| "returnedByBodyPath body = []"

fun inlineCallbackPath :: "node \<Rightarrow> nat list" where
  "inlineCallbackPath (ArrowFunctionExpression params body) =
     length params # returnedByBodyPath body"
| "inlineCallbackPath (FunctionExpression params body) =
     length params # returnedByBodyPath body"
| "inlineCallbackPath _ = []"

text \<open>
  The positions, below \<open>node\<close>, on which the handlers registered for the kind of \<open>node\<close>
  enter \<open>checkNode\<close> or \<open>checkNodeForNullish\<close>, following the table of listeners that
  the rule returns and the handlers it names.
\<close>

fun visitorVisits :: "rule_context \<Rightarrow> node \<Rightarrow> nat list list" where
  "visitorVisits ctx (AssignmentExpression operator left right) =
     (if operator \<in> set [''||='', ''&&='']
      then map ((#) 0) (checkNodeVisits ctx left)
      else if operator = ''??='' then [[0]]
      else [])"
| "visitorVisits ctx (CallExpression callee arguments optional) =
     (if isArrayPredicateFunction ctx (CallExpression callee arguments optional)
         \<and> arguments \<noteq> []
      then
        (case inlineCallbackResult (hd arguments) of
           Some returned \<Rightarrow>
             map ((@) (1 # inlineCallbackPath (hd arguments))) (checkNodeVisits ctx returned)
         | None \<Rightarrow> [])
      else [])"
| "visitorVisits ctx (ConditionalExpression test consequent alternate) =
     map ((#) 0) (checkNodeVisits ctx test)"
| "visitorVisits ctx (IfStatement test consequent alternate) =
     map ((#) 0) (checkNodeVisits ctx test)"
| "visitorVisits ctx (LogicalExpression operator left right) =
     (if operator = ''??'' then [[0]]
      else map ((#) 0) (checkNodeVisits ctx left))"
| "visitorVisits ctx (WhileStatement test body) =
     (if allowConstantLoopConditions ctx
         \<and> isTrueLiteralType (getConstrainedTypeAtLocation ctx test)
      then []
      else map ((#) 0) (checkNodeVisits ctx test))"
| "visitorVisits ctx (DoWhileStatement body test) =
     (if allowConstantLoopConditions ctx
         \<and> isTrueLiteralType (getConstrainedTypeAtLocation ctx test)
      then []
      else map ((#) 1) (checkNodeVisits ctx test))"
| "visitorVisits ctx (ForStatement init test update body) =
     (case test of
        None \<Rightarrow> []
      | Some condition \<Rightarrow>
          if allowConstantLoopConditions ctx
             \<and> isTrueLiteralType (getConstrainedTypeAtLocation ctx condition)
          then []
          else map ((#) (length (optionalChild init))) (checkNodeVisits ctx condition))"
| "visitorVisits ctx _ = []"

lemma children_size:
  "i < length (children node) \<Longrightarrow> size (children node ! i) < size node"
proof -
  have in_list: "c \<in> set xs \<Longrightarrow> size c < Suc (size_list size xs)" for c :: node and xs
    by (induction xs) auto
  have in_option: "c \<in> set (optionalChild x) \<Longrightarrow> size c < Suc (size_option size x)"
    for c :: node and x
    by (cases x) auto
  have "c \<in> set (children node) \<Longrightarrow> size c < size node" for c
    by (cases node) (auto dest: in_list in_option)
  then show "i < length (children node) \<Longrightarrow> size (children node ! i) < size node"
    by simp
qed

function walkVisits :: "rule_context \<Rightarrow> node \<Rightarrow> nat list list" where
  "walkVisits ctx node =
     visitorVisits ctx node
     @ concat (map (\<lambda>i. map ((#) i) (walkVisits ctx (children node ! i)))
                [0..<length (children node)])"
  by pat_completeness auto
termination
  by (relation "measure (\<lambda>(ctx, n). size n)") (auto simp: children_size)

declare walkVisits.simps [simp del]

text \<open>
  The positions that \<open>checkNode\<close> can reach from a node by its own recursion: through
  the argument of a \<open>!\<close> negation and the right operand of \<open>&&\<close> or \<open>||\<close>.
\<close>

fun spine :: "node \<Rightarrow> nat list \<Rightarrow> bool" where
  "spine node [] = True"
| "spine node (i # position) =
     (case unaryNotArgument node of
        Some argument \<Rightarrow> i = 0 \<and> spine argument position
      | None \<Rightarrow>
          (case logicalRight node of
             Some right \<Rightarrow> i = 1 \<and> spine right position
           | None \<Rightarrow> False))"

definition c8_test :: node where
  "c8_test = LogicalExpression ''&&'' (Identifier ''a'') (Identifier ''b'')"

definition c8_tree :: node where
  "c8_tree = IfStatement c8_test (BlockStatement []) None"

section \<open>Auxiliary lemmas\<close>

lemmas pred_defs =
  unionTypeParts_def intersectionTypeParts_def isUnion_def isIntersection_def
  isLiteral_method_def isBooleanLiteralType_def isTrueLiteralType_def isFalseLiteralType_def
  isFalsyType_def getTypeFlags_def isTypeFlagSet_def isTypeAnyType_def isTypeUnknownType_def
  isNullableType_def isTruthyLiteral_def isPossiblyFalsy_def isPossiblyTruthy_def
  nullishFlag_def isNullishType_def isPossiblyNullish_def isAlwaysNullish_def isLiteral_def


lemmas example_contexts = typed_def default_context_def

lemma isTypeFlagSet_OR:
  "isTypeFlagSet t (a OR b) \<longleftrightarrow> isTypeFlagSet t a \<or> isTypeFlagSet t b"
  by (simp add: isTypeFlagSet_def word_ao_dist2 or_eq_0_iff)

lemma foldl_OR_flags:
  "foldl (\<lambda>acc m. acc OR flags m) a ms AND f \<noteq> 0
     \<longleftrightarrow> a AND f \<noteq> 0 \<or> list_ex (\<lambda>m. flags m AND f \<noteq> 0) ms"
  by (induction ms arbitrary: a) (auto simp: word_ao_dist or_eq_0_iff)

lemma isTypeFlagSet_parts:
  "isTypeFlagSet t f \<longleftrightarrow> list_ex (\<lambda>m. flags m AND f \<noteq> 0) (unionTypeParts t)"
  by (simp add: isTypeFlagSet_def getTypeFlags_def foldl_OR_flags)

lemma isTypeFlagSet_plain:
  "\<not> isUnion t \<Longrightarrow> isTypeFlagSet t f \<longleftrightarrow> flags t AND f \<noteq> 0"
  by (simp add: isTypeFlagSet_parts unionTypeParts_def)

lemma checkNode_not:
  "checkNode ctx (UnaryExpression ''!'' e) neg = checkNode ctx e True"
  by (simp add: checkNode.simps [of ctx "UnaryExpression ''!'' e"])

lemma checkNode_logical:
  "operator \<noteq> ''??'' \<Longrightarrow>
     checkNode ctx (LogicalExpression operator left right) neg = checkNode ctx right False"
  by (simp add: checkNode.simps [of ctx "LogicalExpression operator left right"])

lemma checkNode_classify:
  "unaryNotArgument node = None \<Longrightarrow> logicalRight node = None \<Longrightarrow>
   checkNode ctx node neg =
     (if isArrayIndexExpression ctx node then []
      else
        (let type = getConstrainedTypeAtLocation ctx node in
         if list_ex
              (\<lambda>part. isTypeAnyType part \<or> isTypeUnknownType part
                 \<or> isTypeFlagSet part TypeFlags_TypeVariable)
              (unionTypeParts type)
         then []
         else if isTypeFlagSet type TypeFlags_Never then [Report node never None]
         else if \<not> isPossiblyTruthy type
         then [Report node (if \<not> neg then alwaysFalsy else alwaysTruthy) None]
         else if \<not> isPossiblyFalsy type
         then [Report node (if \<not> neg then alwaysTruthy else alwaysFalsy) None]
         else []))"
  by (simp add: checkNode.simps [of ctx node neg] Let_def)

lemma involves_checkNode_guard:
  assumes "involvesAnyUnknownOrTypeVariable t"
  shows "list_ex (\<lambda>part. isTypeAnyType part \<or> isTypeUnknownType part
                    \<or> isTypeFlagSet part TypeFlags_TypeVariable) (unionTypeParts t)"
proof -
  from assms obtain part where part: "part \<in> set (unionTypeParts t)" "\<not> isUnion part"
    and fl: "flags part AND (TypeFlags_Any OR TypeFlags_Unknown OR TypeFlags_TypeParameter
                              OR TypeFlags_TypeVariable) \<noteq> 0"
    by (auto simp: involvesAnyUnknownOrTypeVariable_def list_ex_iff)
  from fl have "flags part AND TypeFlags_Any \<noteq> 0 \<or> flags part AND TypeFlags_Unknown \<noteq> 0
      \<or> flags part AND TypeFlags_TypeVariable \<noteq> 0"
    by (auto simp: word_ao_dist2 or_eq_0_iff TypeFlags_TypeVariable_def)
  with part(2) have "isTypeAnyType part \<or> isTypeUnknownType part
      \<or> isTypeFlagSet part TypeFlags_TypeVariable"
    by (simp add: isTypeAnyType_def isTypeUnknownType_def isTypeFlagSet_plain)
  with part(1) show ?thesis by (auto simp: list_ex_iff)
qed

lemma involves_isTypeFlagSet:
  assumes "involvesAnyUnknownOrTypeVariable t"
  shows "isTypeFlagSet t (TypeFlags_Any OR TypeFlags_Unknown OR TypeFlags_TypeParameter
                            OR TypeFlags_TypeVariable)"
  using assms by (auto simp: involvesAnyUnknownOrTypeVariable_def isTypeFlagSet_parts list_ex_iff)


lemma never_type_classification:
  assumes "flags t = TypeFlags_Never"
  shows "\<not> isUnion t" and "isTypeFlagSet t TypeFlags_Never"
    and "\<not> isTypeFlagSet t (TypeFlags_Any OR TypeFlags_Unknown OR TypeFlags_TypeParameter
                               OR TypeFlags_TypeVariable)"
    and "\<not> list_ex (\<lambda>part. isTypeAnyType part \<or> isTypeUnknownType part
                    \<or> isTypeFlagSet part TypeFlags_TypeVariable) (unionTypeParts t)"
proof -
  show u: "\<not> isUnion t" using assms by (simp add: isUnion_def TypeFlags_defs)
  show "isTypeFlagSet t TypeFlags_Never"
    using assms u by (simp add: isTypeFlagSet_plain TypeFlags_defs)
  show "\<not> isTypeFlagSet t (TypeFlags_Any OR TypeFlags_Unknown OR TypeFlags_TypeParameter
                               OR TypeFlags_TypeVariable)"
    using assms u by (simp add: isTypeFlagSet_plain TypeFlags_defs)
  show "\<not> list_ex (\<lambda>part. isTypeAnyType part \<or> isTypeUnknownType part
                    \<or> isTypeFlagSet part TypeFlags_TypeVariable) (unionTypeParts t)"
    using assms u
    by (simp add: unionTypeParts_def isTypeAnyType_def isTypeUnknownType_def
        isTypeFlagSet_plain TypeFlags_defs)
qed

lemma never_type_otherwise:
  assumes "flags t = TypeFlags_Never"
  shows "isPossiblyTruthy t" and "\<not> isPossiblyFalsy t" and "\<not> isPossiblyNullish t"
proof -
  have u: "\<not> isUnion t" "\<not> isIntersection t"
    using assms by (simp_all add: isUnion_def isIntersection_def TypeFlags_defs)
  show "isPossiblyTruthy t"
    using assms u
    by (simp add: isPossiblyTruthy_def unionTypeParts_def intersectionTypeParts_def
        isFalsyType_def isLiteral_method_def isFalseLiteralType_def isBooleanLiteralType_def
        TypeFlags_defs)
  show "\<not> isPossiblyFalsy t"
    using assms u
    by (simp add: isPossiblyFalsy_def unionTypeParts_def intersectionTypeParts_def
        isTypeFlagSet_plain TypeFlags_defs)
  show "\<not> isPossiblyNullish t"
    using assms u
    by (simp add: isPossiblyNullish_def unionTypeParts_def isNullishType_def nullishFlag_def
        isTypeFlagSet_plain TypeFlags_defs)
qed

lemma isComparable_spec:
  "isComparable operator other (foldl (OR) 0 fs) \<longleftrightarrow>
     carriesAnyOf other fs
     \<or> carriesAnyOf other
          [TypeFlags_Any, TypeFlags_Unknown, TypeFlags_TypeParameter, TypeFlags_TypeVariable]
     \<or> ((operator = ''=='' \<or> operator = ''!='')
          \<and> carriesAnyOf other [TypeFlags_Null, TypeFlags_Undefined, TypeFlags_Void])"
proof -
  have fold: "isTypeFlagSet other (foldl (OR) a fs)
      \<longleftrightarrow> isTypeFlagSet other a \<or> carriesAnyOf other fs" for a
    by (induction fs arbitrary: a) (auto simp: carriesAnyOf_def isTypeFlagSet_OR)
  have zero: "\<not> isTypeFlagSet other 0"
    by (simp add: isTypeFlagSet_def)
  show ?thesis
    by (auto simp: isComparable_def Let_def isTypeFlagSet_OR fold zero carriesAnyOf_def)
qed

lemma not_isComparable_cannotBe:
  "\<not> isComparable operator other (TypeFlags_Undefined OR TypeFlags_Void)
     \<longleftrightarrow> cannotBe operator other [TypeFlags_Undefined, TypeFlags_Void]"
  "\<not> isComparable operator other TypeFlags_Null
     \<longleftrightarrow> cannotBe operator other [TypeFlags_Null]"
  using isComparable_spec [of operator other "[TypeFlags_Undefined, TypeFlags_Void]"]
        isComparable_spec [of operator other "[TypeFlags_Null]"]
  by (simp_all add: cannotBe_def)




lemma contains_MemberExpression:
  "optionChainContainsOptionArrayIndex ctx (MemberExpression object property computed optional)
     \<longleftrightarrow> (optional \<and> isArrayIndexExpression ctx object)
        \<or> ((isMemberExpression object \<or> isCallExpression object)
            \<and> optionChainContainsOptionArrayIndex ctx object)"
  by (auto simp: optionChainContainsOptionArrayIndex.simps
        [of ctx "MemberExpression object property computed optional"])

lemma contains_CallExpression:
  "optionChainContainsOptionArrayIndex ctx (CallExpression callee arguments optional)
     \<longleftrightarrow> (optional \<and> isArrayIndexExpression ctx callee)
        \<or> ((isMemberExpression callee \<or> isCallExpression callee)
            \<and> optionChainContainsOptionArrayIndex ctx callee)"
  by (auto simp: optionChainContainsOptionArrayIndex.simps
        [of ctx "CallExpression callee arguments optional"])





lemma checkNodeVisits_spine:
  "position \<in> set (checkNodeVisits ctx node) \<Longrightarrow> spine node position"
proof (induction ctx node arbitrary: position rule: checkNodeVisits.induct)
  case (1 ctx node)
  from "1.prems" show ?case
    by (subst (asm) checkNodeVisits.simps)
       (auto split: option.splits if_splits dest: "1.IH"(1) "1.IH"(2))
qed

lemma checkNodeVisits_distinct: "distinct (checkNodeVisits ctx node)"
proof (induction ctx node rule: checkNodeVisits.induct)
  case (1 ctx node)
  show ?case
    by (subst checkNodeVisits.simps)
       (auto split: option.splits simp: distinct_map "1.IH")
qed

lemma unaryNotArgument_child:
  "unaryNotArgument node = Some argument \<Longrightarrow> children node = [argument]"
  by (cases node) (auto split: if_splits)

lemma logicalRight_child:
  "logicalRight node = Some right \<Longrightarrow> length (children node) = 2 \<and> children node ! 1 = right"
  by (cases node) (auto split: if_splits)

lemma walkVisits_iff:
  "position \<in> set (walkVisits ctx node) \<longleftrightarrow>
     position \<in> set (visitorVisits ctx node)
     \<or> (\<exists>i below. position = i # below \<and> i < length (children node)
           \<and> below \<in> set (walkVisits ctx (children node ! i)))"
  by (subst walkVisits.simps) auto

lemma visitorVisits_CallExpression:
  assumes "position \<in> set (visitorVisits ctx (CallExpression callee arguments optional))"
  shows "\<exists>returned below.
           arguments \<noteq> []
           \<and> inlineCallbackResult (hd arguments) = Some returned
           \<and> below \<in> set (checkNodeVisits ctx returned)
           \<and> position = 1 # inlineCallbackPath (hd arguments) @ below"
proof (cases "isArrayPredicateFunction ctx (CallExpression callee arguments optional)
              \<and> arguments \<noteq> []")
  case True
  show ?thesis
  proof (cases "inlineCallbackResult (hd arguments)")
    case None
    with True assms show ?thesis
      by (simp del: isArrayPredicateFunction.simps)
  next
    case (Some returned)
    with True assms show ?thesis
      by (auto simp del: isArrayPredicateFunction.simps)
  qed
next
  case False
  with assms show ?thesis
    by (simp del: isArrayPredicateFunction.simps)
qed

lemma visitorVisits_ForStatement:
  assumes "position \<in> set (visitorVisits ctx (ForStatement init test update body))"
  shows "\<exists>condition below.
           test = Some condition \<and> below \<in> set (checkNodeVisits ctx condition)
           \<and> position = length (optionalChild init) # below"
proof (cases test)
  case None
  with assms show ?thesis by simp
next
  case (Some condition)
  with assms show ?thesis by (auto split: if_splits)
qed

lemma visitorVisits_not_spine:
  "position \<in> set (visitorVisits ctx node) \<Longrightarrow> \<not> spine node position"
proof (cases node)
  case (CallExpression callee arguments optional)
  show "position \<in> set (visitorVisits ctx node) \<Longrightarrow> \<not> spine node position"
  proof -
    assume "position \<in> set (visitorVisits ctx node)"
    then obtain below where "position = 1 # inlineCallbackPath (hd arguments) @ below"
      unfolding CallExpression by (blast dest: visitorVisits_CallExpression)
    then show "\<not> spine node position"
      by (simp add: CallExpression)
  qed
next
  case (ForStatement init test update body)
  show "position \<in> set (visitorVisits ctx node) \<Longrightarrow> \<not> spine node position"
  proof -
    assume "position \<in> set (visitorVisits ctx node)"
    then obtain below where "position = length (optionalChild init) # below"
      unfolding ForStatement by (blast dest: visitorVisits_ForStatement)
    then show "\<not> spine node position"
      by (simp add: ForStatement)
  qed
qed (auto split: if_splits)

lemma walkVisits_not_spine:
  "position \<in> set (walkVisits ctx node) \<Longrightarrow> \<not> spine node position"
proof (induction ctx node arbitrary: position rule: walkVisits.induct)
  case (1 ctx node)
  from "1.prems" consider
      (here) "position \<in> set (visitorVisits ctx node)"
    | (below) i below where "position = i # below" "i < length (children node)"
        "below \<in> set (walkVisits ctx (children node ! i))"
    by (auto simp: walkVisits_iff [of position ctx node])
  then show ?case
  proof cases
    case here
    then show ?thesis by (rule visitorVisits_not_spine)
  next
    case below
    then have "\<not> spine (children node ! i) below"
      using "1.IH" [of i below] by simp
    with below(1,2) show ?thesis
      by (auto split: option.splits dest: unaryNotArgument_child logicalRight_child)
  qed
qed

lemma visitorVisits_distinct: "distinct (visitorVisits ctx node)"
proof (cases node)
  case (CallExpression callee arguments optional)
  have "inj_on ((@) prefix) A" for prefix :: "nat list" and A
    by (simp add: inj_on_def)
  then show ?thesis
    unfolding CallExpression
    by (simp del: isArrayPredicateFunction.simps
          add: distinct_map checkNodeVisits_distinct split: option.split)
qed (simp_all add: distinct_map checkNodeVisits_distinct split: option.split)

lemma returnedByBody_walk:
  assumes "returnedByBody body = Some returned"
    and "returnedByBodyPath body @ below \<in> set (walkVisits ctx body)"
  shows "below \<in> set (walkVisits ctx returned)"
proof (cases body)
  case (BlockStatement callbackBody)
  with assms(1) have single: "callbackBody = [ReturnStatement (Some returned)]"
    by (auto split: list.splits node.splits option.splits)
  from assms(2) have "0 # below \<in> set (walkVisits ctx (ReturnStatement (Some returned)))"
    unfolding BlockStatement single
    by (simp add: walkVisits_iff [of _ ctx "BlockStatement _"])
  then show ?thesis
    by (simp add: walkVisits_iff [of _ ctx "ReturnStatement _"])
qed (use assms in auto)

lemma inlineCallback_walk:
  assumes "inlineCallbackResult callback = Some returned"
    and "inlineCallbackPath callback @ below \<in> set (walkVisits ctx callback)"
  shows "below \<in> set (walkVisits ctx returned)"
proof (cases callback)
  case (ArrowFunctionExpression params body)
  with assms(2) have "returnedByBodyPath body @ below \<in> set (walkVisits ctx body)"
    by (simp add: walkVisits_iff [of _ ctx "ArrowFunctionExpression _ _"])
  with assms(1) show ?thesis
    unfolding ArrowFunctionExpression by (simp add: returnedByBody_walk)
next
  case (FunctionExpression params body)
  with assms(2) have "returnedByBodyPath body @ below \<in> set (walkVisits ctx body)"
    by (simp add: walkVisits_iff [of _ ctx "FunctionExpression _ _"])
  with assms(1) show ?thesis
    unfolding FunctionExpression by (simp add: returnedByBody_walk)
qed (use assms(1) in auto)

lemma checkNodeVisits_not_walked:
  "below \<in> set (checkNodeVisits ctx node) \<Longrightarrow> below \<notin> set (walkVisits ctx node)"
  using checkNodeVisits_spine walkVisits_not_spine by blast

lemma nullish_not_walked: "[] \<notin> set (walkVisits ctx node)"
  using walkVisits_not_spine [of "[]" ctx node] by auto

lemma visitorVisits_below:
  assumes "i # below \<in> set (visitorVisits ctx node)"
  shows "below \<notin> set (walkVisits ctx (children node ! i))"
proof (cases node)
  case (CallExpression callee arguments optional)
  from assms obtain returned rest where r: "inlineCallbackResult (hd arguments) = Some returned"
      "rest \<in> set (checkNodeVisits ctx returned)"
      "i # below = 1 # inlineCallbackPath (hd arguments) @ rest"
    and "arguments \<noteq> []"
    unfolding CallExpression by (blast dest: visitorVisits_CallExpression)
  then have child: "children node ! i = hd arguments"
    using r(3) by (cases arguments) (simp_all add: CallExpression)
  show ?thesis
  proof
    assume "below \<in> set (walkVisits ctx (children node ! i))"
    with child r(3) have "inlineCallbackPath (hd arguments) @ rest
        \<in> set (walkVisits ctx (hd arguments))"
      by simp
    with r(1) have "rest \<in> set (walkVisits ctx returned)"
      by (rule inlineCallback_walk)
    with r(2) show False
      by (simp add: checkNodeVisits_not_walked)
  qed
next
  case (ForStatement init test update body)
  from assms obtain condition rest where r: "test = Some condition"
      "rest \<in> set (checkNodeVisits ctx condition)"
      "i # below = length (optionalChild init) # rest"
    unfolding ForStatement by (blast dest: visitorVisits_ForStatement)
  then have "children node ! i = condition"
    by (simp add: ForStatement nth_append)
  with r show ?thesis
    by (simp add: checkNodeVisits_not_walked)
qed (use assms in \<open>auto split: if_splits simp: checkNodeVisits_not_walked nullish_not_walked\<close>)

lemma distinct_indexed:
  assumes "\<And>i. i < n \<Longrightarrow> distinct (f i)"
  shows "distinct (concat (map (\<lambda>i. map ((#) i) (f i)) [0..<n]))"
  using assms
proof (induction n)
  case 0
  show ?case by simp
next
  case (Suc n)
  then show ?case
    by (auto simp: distinct_map)
qed

lemma walkVisits_distinct: "distinct (walkVisits ctx node)"
proof (induction ctx node rule: walkVisits.induct)
  case (1 ctx node)
  have below: "distinct (concat (map (\<lambda>i. map ((#) i) (walkVisits ctx (children node ! i)))
                [0..<length (children node)]))"
    by (rule distinct_indexed) (simp add: "1.IH")
  have apart: "position \<in> set (visitorVisits ctx node) \<Longrightarrow>
      position \<notin> set (concat (map (\<lambda>i. map ((#) i) (walkVisits ctx (children node ! i)))
                [0..<length (children node)]))" for position
    by (auto dest: visitorVisits_below)
  show ?case
    by (subst walkVisits.simps)
       (use below apart in \<open>auto simp: visitorVisits_distinct simp del: visitorVisits.simps\<close>)
qed

lemma checkNode_reports_visited:
  "r \<in> set (checkNode ctx node neg) \<Longrightarrow>
     \<exists>position \<in> set (checkNodeVisits ctx node). nodeAt node position = Some (reportNode r)"
proof (induction ctx node neg arbitrary: r rule: checkNode.induct)
  case (1 ctx node neg)
  show ?case
  proof (cases "unaryNotArgument node")
    case (Some argument)
    with "1.prems" have "r \<in> set (checkNode ctx argument True)"
      by (simp add: checkNode.simps [of ctx node])
    with Some obtain position where p: "position \<in> set (checkNodeVisits ctx argument)"
        "nodeAt argument position = Some (reportNode r)"
      using "1.IH" by blast
    from Some p(1) have "0 # position \<in> set (checkNodeVisits ctx node)"
      by (simp add: checkNodeVisits.simps [of ctx node])
    moreover from p(2) have "nodeAt node (0 # position) = Some (reportNode r)"
      using unaryNotArgument_child [OF Some] by simp
    ultimately show ?thesis by blast
  next
    case None
    note no_not = this
    show ?thesis
    proof (cases "isArrayIndexExpression ctx node")
      case True
      with no_not "1.prems" show ?thesis
        by (simp add: checkNode.simps [of ctx node])
    next
      case False
      show ?thesis
      proof (cases "logicalRight node")
        case (Some right)
        with no_not False "1.prems" have "r \<in> set (checkNode ctx right False)"
          by (simp add: checkNode.simps [of ctx node])
        with no_not False Some obtain position where
            p: "position \<in> set (checkNodeVisits ctx right)"
            "nodeAt right position = Some (reportNode r)"
          using "1.IH" by blast
        from no_not False Some p(1) have "1 # position \<in> set (checkNodeVisits ctx node)"
          by (simp add: checkNodeVisits.simps [of ctx node])
        moreover from p(2) have "nodeAt node (1 # position) = Some (reportNode r)"
          using logicalRight_child [OF Some] by simp
        ultimately show ?thesis by blast
      next
        case None
        with no_not False "1.prems" have "reportNode r = node"
          by (auto simp: checkNode.simps [of ctx node] Let_def split: if_splits option.splits)
        moreover have "[] \<in> set (checkNodeVisits ctx node)"
          by (simp add: checkNodeVisits.simps [of ctx node])
        ultimately show ?thesis
          by (intro bexI [of _ "[]"]) simp_all
      qed
    qed
  qed
qed

lemma visitorVisits_walked:
  "nodeAt tree position = Some node \<Longrightarrow> below \<in> set (visitorVisits ctx node)
     \<Longrightarrow> position @ below \<in> set (walkVisits ctx tree)"
proof (induction position arbitrary: tree)
  case Nil
  then show ?case
    by (auto simp: walkVisits_iff [of below ctx] simp del: visitorVisits.simps)
next
  case (Cons i position)
  from Cons.prems(1) have i: "i < length (children tree)"
    and at: "nodeAt (children tree ! i) position = Some node"
    by (simp_all split: if_splits)
  from Cons.IH [OF at Cons.prems(2)] i show ?case
    by (simp add: walkVisits_iff [of "i # position @ below" ctx] del: visitorVisits.simps)
qed

lemma count_list_distinct:
  "distinct xs \<Longrightarrow> x \<in> set xs \<Longrightarrow> count_list xs x = 1"
  by (induction xs) auto

lemma checkNode_double_negation:
  "checkNode ctx (UnaryExpression ''!'' (UnaryExpression ''!'' e)) neg = checkNode ctx e True"
  by (simp add: checkNode_not)

lemma truthy_runtimeTruthy:
  "(\<And>neg. v \<noteq> Some (PseudoBigInt neg ''0'')) \<Longrightarrow> truthy v = runtimeTruthy v"
  by (cases v rule: truthy.cases) auto

lemma isPossiblyFalsy_spec_but_bigint_zero:
  assumes "\<And>m neg. m \<in> set (concat (map intersectionTypeParts (unionTypeParts t)))
             \<Longrightarrow> val m \<noteq> Some (PseudoBigInt neg ''0'')"
  shows "isPossiblyFalsy t = isPossiblyFalsy_spec t"
proof -
  have "filter (\<lambda>m. \<not> isTruthyLiteral m) (concat (map intersectionTypeParts (unionTypeParts t)))
      = filter (\<lambda>m. \<not> isTruthyLiteral_spec m)
          (concat (map intersectionTypeParts (unionTypeParts t)))"
  proof (rule filter_cong [OF refl])
    fix m assume "m \<in> set (concat (map intersectionTypeParts (unionTypeParts t)))"
    then have "truthy (val m) = runtimeTruthy (val m)"
      using assms by (intro truthy_runtimeTruthy) blast
    then show "(\<not> isTruthyLiteral m) = (\<not> isTruthyLiteral_spec m)"
      by (simp add: isTruthyLiteral_def isTruthyLiteral_spec_def)
  qed
  then show ?thesis
    by (simp add: isPossiblyFalsy_def isPossiblyFalsy_spec_def)
qed

section \<open>Properties\<close>

text \<open>
  C1 (amended). When the union decomposition of an expression's type has a member
  that is Any, Unknown or an unresolved type parameter or type variable,
  \<open>checkNodeForNullish\<close> reports nothing, and \<open>checkNode\<close> reports nothing provided the
  expression is the node it classifies, that is neither a \<open>!\<close> negation nor a \<open>&&\<close> or
  \<open>||\<close> expression, for which \<open>checkNode\<close> goes on to an operand and never reads the
  type of the whole.
\<close>

theorem any_unknown_type_variable_no_verdict:
  assumes "involvesAnyUnknownOrTypeVariable (getConstrainedTypeAtLocation ctx node)"
  shows "checkNodeForNullish ctx node = []
         \<and> (unaryNotArgument node = None \<and> logicalRight node = None
              \<longrightarrow> checkNode ctx node isUnaryNotArgument = [])"
  using involves_checkNode_guard [OF assms] involves_isTypeFlagSet [OF assms]
  by (simp add: checkNodeForNullish_def checkNode_classify)

text \<open>A witness: \<open>x\<close> of type \<open>T | true\<close>, with \<open>T\<close> a type parameter.\<close>

theorem any_unknown_type_variable_no_verdict_witness:
  "involvesAnyUnknownOrTypeVariable
     (getConstrainedTypeAtLocation c1_witness_context (Identifier ''x''))
   \<and> checkNodeForNullish c1_witness_context (Identifier ''x'') = []
   \<and> checkNode c1_witness_context (Identifier ''x'') False = []"
proof -
  have h: "involvesAnyUnknownOrTypeVariable
     (getConstrainedTypeAtLocation c1_witness_context (Identifier ''x''))"
    by (simp add: involvesAnyUnknownOrTypeVariable_def c1_witness_context_def example_contexts
        example_types pred_defs TypeFlags_defs)
  from any_unknown_type_variable_no_verdict [OF h, of False] h show ?thesis by simp
qed

text \<open>
  The claim as stated fails for \<open>a && true\<close> with \<open>a: any\<close>: the expression has type
  \<open>any\<close>, and \<open>checkNode\<close> reports its right operand as always truthy.
\<close>

theorem any_typed_logical_and_counterexample:
  "involvesAnyUnknownOrTypeVariable (getConstrainedTypeAtLocation c1_context c1_node)
   \<and> checkNode c1_context c1_node False = [Report (Literal ''true'') alwaysTruthy None]"
  by (simp add: involvesAnyUnknownOrTypeVariable_def c1_context_def c1_node_def example_contexts
      checkNode_logical checkNode_classify example_types pred_defs TypeFlags_defs)

text \<open>
  C2 (amended). For every expression whose type is the uninhabited type \<open>never\<close>,
  \<open>checkNodeForNullish\<close> reports \<open>never\<close>, and so does \<open>checkNode\<close> provided the
  expression is the node it classifies: neither a \<open>!\<close> negation, nor a \<open>&&\<close> or \<open>||\<close>
  expression, nor an index access into an array or tuple. The verdict comes before the
  truthy, falsy and nullish ones: such a type is possibly truthy, not possibly falsy and
  not possibly nullish, so the later branches would have reported always truthy and
  never nullish.
\<close>

theorem never_type_verdict:
  assumes "flags (getConstrainedTypeAtLocation ctx node) = TypeFlags_Never"
  shows "checkNodeForNullish ctx node = [Report node never None]
         \<and> (unaryNotArgument node = None \<and> logicalRight node = None
              \<and> \<not> isArrayIndexExpression ctx node
              \<longrightarrow> checkNode ctx node isUnaryNotArgument = [Report node never None])
         \<and> isPossiblyTruthy (getConstrainedTypeAtLocation ctx node)
         \<and> \<not> isPossiblyFalsy (getConstrainedTypeAtLocation ctx node)
         \<and> \<not> isPossiblyNullish (getConstrainedTypeAtLocation ctx node)"
  using never_type_classification [OF assms] never_type_otherwise [OF assms]
  by (simp add: checkNodeForNullish_def checkNode_classify)

text \<open>A witness: an identifier of type \<open>never\<close>.\<close>

theorem never_type_verdict_witness:
  "flags (getConstrainedTypeAtLocation (typed (\<lambda>n. neverType)) (Identifier ''x''))
     = TypeFlags_Never
   \<and> checkNodeForNullish (typed (\<lambda>n. neverType)) (Identifier ''x'')
       = [Report (Identifier ''x'') never None]
   \<and> checkNode (typed (\<lambda>n. neverType)) (Identifier ''x'') False
       = [Report (Identifier ''x'') never None]"
proof -
  have h: "flags (getConstrainedTypeAtLocation (typed (\<lambda>n. neverType)) (Identifier ''x''))
     = TypeFlags_Never"
    by (simp add: example_contexts neverType_def)
  from never_type_verdict [OF h, of False] h show ?thesis
    by (simp add: example_contexts)
qed

text \<open>
  The claim as stated fails for \<open>arr[0]\<close> with \<open>arr: never[]\<close>: the expression has type
  \<open>never\<close>, and \<open>checkNode\<close> leaves an index access into an array alone.
\<close>

theorem never_typed_array_index_counterexample:
  "flags (getConstrainedTypeAtLocation c2_context c2_node) = TypeFlags_Never
   \<and> checkNode c2_context c2_node False = []"
  by (simp add: c2_context_def c2_node_def example_contexts neverType_def
      checkNode_classify nodeIsArrayType_def)

text \<open>
  C3 (code defect). Double negation changes the verdict. Each \<open>!\<close> layer hands its
  argument on with the flag set, not flipped, so \<open>!!e\<close> is classified as \<open>!e\<close> is: for
  \<open>x\<close> of type \<open>true\<close>, \<open>checkNode\<close> reports \<open>x\<close> always truthy and \<open>!!x\<close> always falsy.
\<close>

theorem double_negation_changes_verdict:
  "checkNode c3_context (Identifier ''x'') False = [Report (Identifier ''x'') alwaysTruthy None]
   \<and> checkNode c3_context (UnaryExpression ''!'' (UnaryExpression ''!'' (Identifier ''x''))) False
       = [Report (Identifier ''x'') alwaysFalsy None]"
  by (simp add: checkNode_not checkNode_classify c3_context_def example_contexts
      example_types pred_defs TypeFlags_defs)

text \<open>
  C4 (amended). For an optional member access \<open>base?.p\<close>: when the type of the base is
  nullable as a whole and the base is not itself a member access or a call whose
  nullability is inherited from its own object or callee, as for an identifier of type
  \<open>{ a: string } | null\<close>, nothing is reported; when the type of the base is neither Any
  or Unknown nor nullable or void, no upstream step of the chain is an optional array
  index and the \<open>?.\<close> token is found, the step is reported as a redundant optional
  step, with the fix that replaces the token.
\<close>

theorem optional_member_step_verdict:
  "(isNullableType (getConstrainedTypeAtLocation ctx object)
      \<and> \<not> isMemberExpressionNullableOriginFromObject ctx object
      \<and> \<not> isCallExpressionNullableOriginFromCallee ctx object
    \<longrightarrow> checkOptionalMemberExpression ctx (MemberExpression object property computed True)
        = Inr [])
   \<and> (\<not> isTypeFlagSet (getConstrainedTypeAtLocation ctx object)
            (TypeFlags_Any OR TypeFlags_Unknown)
      \<and> \<not> isNullableType (getConstrainedTypeAtLocation ctx object)
      \<and> \<not> isTypeFlagSet (getConstrainedTypeAtLocation ctx object) TypeFlags_Void
      \<and> \<not> optionChainContainsOptionArrayIndex ctx
             (MemberExpression object property computed True)
      \<and> getTokenAfter ctx object
           (\<lambda>token. tokenType token = ''Punctuator'' \<and> tokenValue token = ''?.'')
         = Some questionDotOperator
      \<longrightarrow> checkOptionalMemberExpression ctx (MemberExpression object property computed True)
          = Inr [Report (MemberExpression object property computed True) neverOptionalChain
                   (Some (questionDotOperator, if computed then [] else ''.''))])"
  by (simp add: checkOptionalChain_def isOptionableExpression_def Let_def)

text \<open>
  A witness: \<open>base?.a\<close> with \<open>base: { a: string } | null\<close> is left alone, and \<open>s?.length\<close>
  with \<open>s: string\<close> is reported.
\<close>

theorem optional_member_step_verdict_witness:
  "isNullableType (getConstrainedTypeAtLocation c4_context (Identifier ''base''))
   \<and> checkOptionalMemberExpression c4_context
        (MemberExpression (Identifier ''base'') (Identifier ''a'') False True) = Inr []
   \<and> \<not> isNullableType (getConstrainedTypeAtLocation c4_context (Identifier ''s''))
   \<and> checkOptionalMemberExpression c4_context
        (MemberExpression (Identifier ''s'') (Identifier ''length'') False True)
      = Inr [Report (MemberExpression (Identifier ''s'') (Identifier ''length'') False True)
               neverOptionalChain (Some (questionDot, ''.''))]"
proof -
  have a: "isNullableType (getConstrainedTypeAtLocation c4_context (Identifier ''base''))"
    "\<not> isMemberExpressionNullableOriginFromObject c4_context (Identifier ''base'')"
    "\<not> isCallExpressionNullableOriginFromCallee c4_context (Identifier ''base'')"
    by (simp_all add: c4_context_def c4_base_def c4_inner_def example_contexts example_types
        pred_defs TypeFlags_defs)
  have b: "\<not> isTypeFlagSet (getConstrainedTypeAtLocation c4_context (Identifier ''s''))
            (TypeFlags_Any OR TypeFlags_Unknown)"
    "\<not> isNullableType (getConstrainedTypeAtLocation c4_context (Identifier ''s''))"
    "\<not> isTypeFlagSet (getConstrainedTypeAtLocation c4_context (Identifier ''s'')) TypeFlags_Void"
    by (simp_all add: c4_context_def c4_base_def example_contexts example_types pred_defs
        TypeFlags_defs)
  have c: "\<not> optionChainContainsOptionArrayIndex c4_context
             (MemberExpression (Identifier ''s'') (Identifier ''length'') False True)"
    by (simp add: contains_MemberExpression)
  have d: "getTokenAfter c4_context (Identifier ''s'')
           (\<lambda>token. tokenType token = ''Punctuator'' \<and> tokenValue token = ''?.'')
         = Some questionDot"
    by (simp add: c4_context_def example_contexts questionDot_def)
  from optional_member_step_verdict
         [of c4_context "Identifier ''base''" "Identifier ''a''" False questionDot]
       optional_member_step_verdict
         [of c4_context "Identifier ''s''" "Identifier ''length''" False questionDot]
       a b c d
  show ?thesis by simp
qed

text \<open>
  The claim as stated fails for the second step of \<open>x?.y?.a\<close> with
  \<open>x: { y: { a: string } } | null\<close>: the base \<open>x?.y\<close> has the union type
  \<open>{ a: string } | undefined\<close>, no member of which yields a nullable \<open>a\<close>, and the type is
  nullable as a whole; but its nullability is inherited from \<open>x\<close>, and the step is
  reported as redundant.
\<close>

theorem inherited_nullability_counterexample:
  "nullableOnUnionAsAWhole c4_context (getConstrainedTypeAtLocation c4_context c4_base) ''a''
   \<and> checkOptionalMemberExpression c4_context
        (MemberExpression c4_base (Identifier ''a'') False True)
      = Inr [Report (MemberExpression c4_base (Identifier ''a'') False True)
               neverOptionalChain (Some (questionDot, ''.''))]"
proof -
  have "nullableOnUnionAsAWhole c4_context
          (getConstrainedTypeAtLocation c4_context c4_base) ''a''"
    by (simp add: nullableOnUnionAsAWhole_def c4_context_def c4_base_def c4_inner_def
        c4_outer_def example_contexts example_types pred_defs TypeFlags_defs)
  moreover have "\<not> optionChainContainsOptionArrayIndex c4_context
             (MemberExpression c4_base (Identifier ''a'') False True)"
    by (simp add: contains_MemberExpression c4_base_def c4_context_def example_contexts
        nodeIsArrayType_def nodeIsTupleType_def)
  moreover have "\<not> isOptionableExpression c4_context c4_base"
    by (simp add: isOptionableExpression_def c4_context_def c4_base_def c4_inner_def
        c4_outer_def example_contexts example_types pred_defs TypeFlags_defs)
  moreover have "getTokenAfter c4_context c4_base
           (\<lambda>token. tokenType token = ''Punctuator'' \<and> tokenValue token = ''?.'')
         = Some questionDot"
    by (simp add: c4_context_def example_contexts questionDot_def)
  ultimately show ?thesis
    by (simp add: checkOptionalChain_def)
qed



text \<open>
  C6 (code defect). \<open>isPossiblyFalsy\<close> departs from the reference definition on the
  bigint literal \<open>0n\<close>: the value of a bigint literal type is a \<open>PseudoBigInt\<close> object,
  which \<open>!!type.value\<close> takes for truthy, so \<open>isTruthyLiteral\<close> discards the member
  although its runtime value is falsy.
\<close>

theorem isPossiblyFalsy_bigint_zero:
  "\<not> isPossiblyFalsy bigintZeroType \<and> isPossiblyFalsy_spec bigintZeroType"
  by (simp add: isPossiblyFalsy_spec_def isTruthyLiteral_spec_def bigintZeroType_def pred_defs
      TypeFlags_defs)

text \<open>
  C7. For a comparison operator and operands that are not both bare literals, the
  no-overlap diagnostic is reported exactly under the condition of the specification,
  and nothing else is reported.
\<close>

theorem no_type_overlap_iff:
  assumes "operator \<in> set BOOL_OPERATORS"
    and "\<not> (isLiteral (getConstrainedTypeAtLocation ctx left)
             \<and> isLiteral (getConstrainedTypeAtLocation ctx right))"
  shows "checkIfBinaryExpressionIsNecessaryConditional ctx (BinaryExpression operator left right)
         = (if noTypeOverlap_spec (isStrictNullChecks ctx) operator
                 (getConstrainedTypeAtLocation ctx left) (getConstrainedTypeAtLocation ctx right)
            then [Report (BinaryExpression operator left right) noOverlapBooleanExpression None]
            else [])"
  using assms
  by (auto simp: Let_def not_isComparable_cannotBe noTypeOverlap_spec_def)

text \<open>A witness: \<open>x === undefined\<close> with \<open>x: string\<close>, under strict null checks.\<close>

theorem no_type_overlap_iff_witness:
  "''==='' \<in> set BOOL_OPERATORS
   \<and> \<not> (isLiteral (getConstrainedTypeAtLocation c7_context (Identifier ''x''))
         \<and> isLiteral (getConstrainedTypeAtLocation c7_context (Identifier ''undefined'')))
   \<and> checkIfBinaryExpressionIsNecessaryConditional c7_context
        (BinaryExpression ''==='' (Identifier ''x'') (Identifier ''undefined''))
      = [Report (BinaryExpression ''==='' (Identifier ''x'') (Identifier ''undefined''))
           noOverlapBooleanExpression None]"
proof -
  have op: "''==='' \<in> set BOOL_OPERATORS"
    by (simp add: BOOL_OPERATORS_def)
  have lit: "\<not> (isLiteral (getConstrainedTypeAtLocation c7_context (Identifier ''x''))
         \<and> isLiteral (getConstrainedTypeAtLocation c7_context (Identifier ''undefined'')))"
    by (simp add: c7_context_def example_contexts example_types pred_defs TypeFlags_defs)
  have spec: "noTypeOverlap_spec (isStrictNullChecks c7_context) ''==='' 
      (getConstrainedTypeAtLocation c7_context (Identifier ''x''))
      (getConstrainedTypeAtLocation c7_context (Identifier ''undefined''))"
    by (simp add: noTypeOverlap_spec_def cannotBe_def carriesAnyOf_def c7_context_def
        example_contexts example_types pred_defs TypeFlags_defs)
  have "checkIfBinaryExpressionIsNecessaryConditional c7_context
        (BinaryExpression ''==='' (Identifier ''x'') (Identifier ''undefined''))
      = [Report (BinaryExpression ''==='' (Identifier ''x'') (Identifier ''undefined''))
           noOverlapBooleanExpression None]"
    using no_type_overlap_iff [OF op lit] spec by (simp only: if_True)
  with op lit show ?thesis
    by (intro conjI)
qed

text \<open>
  C8. On a logical expression with operator \<open>&&\<close> or \<open>||\<close>, \<open>checkNode\<close> goes on to the
  right operand and nowhere else, so its diagnostics are those of \<open>checkNode\<close> on the right
  operand; the left operand is checked by the handler of the logical expression itself.
  In the walk of a tree that holds the expression, the left operand is checked exactly
  once, and no node of the tree is checked twice.
\<close>

theorem logical_operands_checked_once:
  assumes "operator = ''&&'' \<or> operator = ''||''"
    and "nodeAt tree position = Some (LogicalExpression operator left right)"
  shows "checkNode ctx (LogicalExpression operator left right) isUnaryNotArgument
           = checkNode ctx right False
         \<and> checkNodeVisits ctx (LogicalExpression operator left right)
           = [] # map ((#) 1) (checkNodeVisits ctx right)
         \<and> checkLogicalExpressionForUnnecessaryConditionals ctx
             (LogicalExpression operator left right)
           = checkNode ctx left False
         \<and> count_list (walkVisits ctx tree) (position @ [0]) = 1
         \<and> distinct (walkVisits ctx tree)"
proof -
  from assms(1) have op: "operator \<noteq> ''??''" by auto
  have "[] \<in> set (checkNodeVisits ctx left)"
    by (simp add: checkNodeVisits.simps [of ctx left])
  with op have "[0] \<in> set (visitorVisits ctx (LogicalExpression operator left right))"
    by simp
  with assms(2) have "position @ [0] \<in> set (walkVisits ctx tree)"
    by (rule visitorVisits_walked)
  then have "count_list (walkVisits ctx tree) (position @ [0]) = 1"
    using walkVisits_distinct [of ctx tree] by (simp add: count_list_distinct)
  with op show ?thesis
    by (simp add: checkNode_logical walkVisits_distinct
          checkNodeVisits.simps [of ctx "LogicalExpression operator left right"])
qed

text \<open>
  A witness: in \<open>if (a && b) {}\<close> the walk checks the test, its right operand and its
  left operand, each once.
\<close>

theorem logical_operands_checked_once_witness:
  "nodeAt c8_tree [0] = Some c8_test
   \<and> checkNode (typed (\<lambda>n. stringType)) c8_test False
       = checkNode (typed (\<lambda>n. stringType)) (Identifier ''b'') False
   \<and> checkLogicalExpressionForUnnecessaryConditionals (typed (\<lambda>n. stringType)) c8_test
       = checkNode (typed (\<lambda>n. stringType)) (Identifier ''a'') False
   \<and> walkVisits (typed (\<lambda>n. stringType)) c8_tree = [[0], [0, 1], [0, 0]]
   \<and> count_list (walkVisits (typed (\<lambda>n. stringType)) c8_tree) [0, 0] = 1"
proof -
  have at: "nodeAt c8_tree [0] = Some (LogicalExpression ''&&'' (Identifier ''a'') (Identifier ''b''))"
    by (simp add: c8_tree_def c8_test_def)
  have walk: "walkVisits ctx c8_tree = [[0], [0, 1], [0, 0]]" for ctx
    by (simp add: c8_tree_def c8_test_def walkVisits.simps [of ctx "IfStatement _ _ _"]
        walkVisits.simps [of ctx "LogicalExpression _ _ _"]
        walkVisits.simps [of ctx "Identifier _"] walkVisits.simps [of ctx "BlockStatement _"]
        checkNodeVisits.simps [of ctx "LogicalExpression _ _ _"]
        checkNodeVisits.simps [of ctx "Identifier _"] upt_rec)
  from logical_operands_checked_once
         [of "''&&''" c8_tree "[0]" "Identifier ''a''" "Identifier ''b''"
             "typed (\<lambda>n. stringType)" False, OF _ at] at walk
  show ?thesis
    by (simp add: c8_test_def)
qed





end
